theory Spec2Isabelle
  imports Complex_Main "HOL-Library.Word" "HOL-Library.Sublist"
begin

section \<open>Strings\<close>

text \<open>
  A Python \<^verbatim>\<open>str\<close> is a sequence of Unicode code points. It is modelled as a list
  of natural numbers, one per code point, so that \<open>length\<close> counts what Python's
  \<^verbatim>\<open>len\<close> counts and the Korean and emoji headings of the program are one element
  per character. \<open>ustr\<close> turns an ASCII literal into such a list.
\<close>

type_synonym ustring = "nat list"

definition ustr :: "string \<Rightarrow> ustring" where
  "ustr s = map of_char s"

definition NL :: nat where "NL = 10"
definition HASH :: nat where "HASH = 35"
definition CAPITAL_C :: nat where "CAPITAL_C = 67"
definition LBRACKET :: nat where "LBRACKET = 91"
definition RBRACKET :: nat where "RBRACKET = 93"

text \<open>\<^verbatim>\<open>s.startswith(c)\<close> for a one-character prefix \<open>c\<close>.\<close>

fun startswith :: "ustring \<Rightarrow> nat \<Rightarrow> bool" where
  "startswith [] c = False"
| "startswith (x # xs) c = (x = c)"

section \<open>Notification sender: \<^verbatim>\<open>send_to_slack\<close>\<close>

subsection \<open>Channel normalization (lines 71-72)\<close>

text \<open>
  \<^verbatim>\<open>
  if not channel.startswith("#") and not channel.startswith("C"):
      channel = f"#{channel}"
  \<close>
\<close>

definition normalize_channel :: "ustring \<Rightarrow> ustring" where
  "normalize_channel channel =
     (if \<not> startswith channel HASH \<and> \<not> startswith channel CAPITAL_C
      then HASH # channel else channel)"

subsection \<open>Message assembly (lines 75-96)\<close>

text \<open>
  Python's truth test on the result of \<^verbatim>\<open>dict.get\<close>: a missing key gives
  \<^verbatim>\<open>None\<close>, and \<^verbatim>\<open>None\<close> and the empty string are both false.
\<close>

fun truthy :: "ustring option \<Rightarrow> bool" where
  "truthy None = False"
| "truthy (Some s) = (s \<noteq> [])"

text \<open>The fixed texts of the f-strings, as code points.\<close>

definition title_prefix :: ustring where
  "title_prefix = [0x2A, 0x1F399, 0xFE0F, 0x20, 0xC528, 0xC5D0, 0xC2A4, 0xC5E0, 0x31, 0x37, 0x20,
     0xD68C, 0xC758, 0x20, 0xAE30, 0xB85D, 0x20, 0xC644, 0xB8CC, 0x20, 0x28]"

definition title_suffix :: ustring where
  "title_suffix = [0x29, 0x2A, NL, NL]"

definition attendants_heading :: ustring where
  "attendants_heading = [0x2A, 0x1F465, 0x20, 0xCC38, 0xC5EC, 0xC790, 0x2A, 0x3A, 0x20]"

definition context_heading :: ustring where
  "context_heading = [0x2A, 0x1F4A1, 0x20, 0xD68C, 0xC758, 0x20, 0xBAA9, 0xC801, 0x20, 0xBC0F, 0x20,
     0xBC30, 0xACBD, 0x2A, 0x3A, 0x20]"

definition three_line_heading :: ustring where
  "three_line_heading = [0x2A, 0x2728, 0x20, 0x33, 0xC904, 0x20, 0xC694, 0xC57D, 0x2A, NL]"

definition todo_heading :: ustring where
  "todo_heading = [0x2A, 0x26A1, 0x20, 0xD560, 0x20, 0xC77C, 0x20, 0x28, 0x54, 0x6F, 0x2D, 0x44,
     0x6F, 0x29, 0x2A, NL]"

definition detailed_heading :: ustring where
  "detailed_heading = [0x2A, 0x1F4CC, 0x20, 0xC0C1, 0xC138, 0x20, 0xC694, 0xC57D, 0x2A, NL]"

text \<open>
  The message is built by successive \<^verbatim>\<open>message += ...\<close> statements, each under its
  own test. \<open>now\<close> is the text that
  \<^verbatim>\<open>datetime.now().strftime('%Y-%m-%d %H:%M')\<close> produced; \<open>summary_data\<close> is the
  dictionary of the three result fields. \<^verbatim>\<open>summary_data['k']\<close> is read only after
  \<^verbatim>\<open>summary_data.get('k')\<close> was true, so the key is present there.
\<close>

definition summary_part :: "ustring \<Rightarrow> ustring option \<Rightarrow> ustring \<Rightarrow> ustring" where
  "summary_part heading field message =
     (case field of
        None \<Rightarrow> message
      | Some v \<Rightarrow> if truthy field then message @ heading @ v @ [NL, NL] else message)"

definition build_message ::
  "ustring \<Rightarrow> (string \<rightharpoonup> ustring) \<Rightarrow> ustring \<Rightarrow> ustring \<Rightarrow> ustring" where
  "build_message now summary_data attendants context =
     (let message = title_prefix @ now @ title_suffix;
          message = (if attendants \<noteq> [] then message @ attendants_heading @ attendants @ [NL]
                     else message);
          message = (if context \<noteq> [] then message @ context_heading @ context @ [NL]
                     else message);
          message = message @ [NL];
          message = summary_part three_line_heading (summary_data ''three_line'') message;
          message = summary_part todo_heading (summary_data ''todo'') message;
          message = summary_part detailed_heading (summary_data ''detailed'') message
      in message)"

record payload =
  payload_channel :: ustring
  payload_text :: ustring

record request =
  url :: string
  authorization :: ustring
  json :: payload

text \<open>
  The payload's keys \<^verbatim>\<open>channel\<close> and \<^verbatim>\<open>text\<close> are the fields \<open>payload_channel\<close>
  and \<open>payload_text\<close>.
  \<open>requests_post\<close> stands for the HTTP library's \<^verbatim>\<open>requests.post(...).json()\<close>: the
  one outbound call, whose decoded answer the function returns.
\<close>

definition slack_request ::
  "ustring \<Rightarrow> ustring \<Rightarrow> ustring \<Rightarrow> (string \<rightharpoonup> ustring) \<Rightarrow> ustring \<Rightarrow> ustring \<Rightarrow> request" where
  "slack_request now token chan summary_data attendants context =
     \<lparr>url = ''https://slack.com/api/chat.postMessage'',
      authorization = ustr ''Bearer '' @ token,
      json = \<lparr>payload_channel = normalize_channel chan,
              payload_text = build_message now summary_data attendants context\<rparr>\<rparr>"

definition send_to_slack ::
  "(request \<Rightarrow> 'r) \<Rightarrow> ustring \<Rightarrow> ustring \<Rightarrow> ustring \<Rightarrow> (string \<rightharpoonup> ustring) \<Rightarrow> ustring \<Rightarrow> ustring \<Rightarrow> 'r" where
  "send_to_slack requests_post now token chan summary_data attendants context =
     requests_post (slack_request now token chan summary_data attendants context)"




section \<open>Volume check: \<^verbatim>\<open>check_audio_volume\<close> (lines 45-56)\<close>

type_synonym byte = "8 word"
type_synonym int16 = "16 word"

text \<open>The exceptions that can be raised inside the \<^verbatim>\<open>try\<close> block.\<close>

datatype exn = WaveError | EOFError | ValueError

text \<open>
  What the function returns: the integers \<open>0\<close> and \<open>-1\<close>, or the 64-bit float that
  \<^verbatim>\<open>np.sqrt\<close> produced. Floats are taken as real numbers, with the one special value
  that matters here kept apart: \<^verbatim>\<open>np.sqrt\<close> of a negative number is \<^verbatim>\<open>nan\<close>
  (with a warning, not an exception).
\<close>

datatype volume = Num real | NaN

text \<open>
  \<^verbatim>\<open>np.frombuffer(frames, dtype=np.int16)\<close>: two bytes per sample, low byte first
  (the byte order of the waveform format, which the \<^verbatim>\<open>wave\<close> module hands over in
  native order). A buffer whose size is not a multiple of two raises \<^verbatim>\<open>ValueError\<close>.
\<close>

fun frombuffer_int16 :: "byte list \<Rightarrow> exn + int16 list" where
  "frombuffer_int16 [] = Inr []"
| "frombuffer_int16 [b] = Inl ValueError"
| "frombuffer_int16 (lo # hi # rest) =
     (case frombuffer_int16 rest of
        Inl e \<Rightarrow> Inl e
      | Inr samples \<Rightarrow> Inr (word_of_nat (unat lo + 256 * unat hi) # samples))"

text \<open>
  \<^verbatim>\<open>audio_data**2\<close> on an \<^verbatim>\<open>int16\<close> array stays \<^verbatim>\<open>int16\<close>: each square is
  taken modulo \<open>2 ^ 16\<close> and read back as a signed value.
\<close>

definition square_int16 :: "int16 list \<Rightarrow> int16 list" where
  "square_int16 audio_data = map (\<lambda>s. s * s) audio_data"

text \<open>\<^verbatim>\<open>np.mean\<close> of an \<^verbatim>\<open>int16\<close> array: the signed values are summed as floats.\<close>

definition np_mean :: "int16 list \<Rightarrow> real" where
  "np_mean a = real_of_int (sum_list (map sint a)) / real (length a)"

definition np_sqrt :: "real \<Rightarrow> volume" where
  "np_sqrt x = (if x < 0 then NaN else Num (sqrt x))"

text \<open>
  The body of the \<^verbatim>\<open>try\<close> block. \<open>wave_readframes\<close> stands for the standard
  library's \<^verbatim>\<open>wave.open(io.BytesIO(audio_bytes), 'rb')\<close> followed by
  \<^verbatim>\<open>wf.readframes(wf.getnframes())\<close>: it raises on a container it cannot read and
  returns the frame bytes otherwise.
\<close>

definition volume_try_body :: "(byte list \<Rightarrow> exn + byte list) \<Rightarrow> byte list \<Rightarrow> exn + volume" where
  "volume_try_body wave_readframes audio_bytes =
     (case wave_readframes audio_bytes of
        Inl e \<Rightarrow> Inl e
      | Inr frames \<Rightarrow>
          if length frames = 0 then Inr (Num 0)
          else (case frombuffer_int16 frames of
                  Inl e \<Rightarrow> Inl e
                | Inr audio_data \<Rightarrow>
                    if length audio_data = 0 then Inr (Num 0)
                    else Inr (np_sqrt (np_mean (square_int16 audio_data)))))"

text \<open>\<^verbatim>\<open>except Exception\<close>: every exception of the body becomes the value \<open>-1\<close>.\<close>

definition check_audio_volume :: "(byte list \<Rightarrow> exn + byte list) \<Rightarrow> byte list \<Rightarrow> volume" where
  "check_audio_volume wave_readframes audio_bytes =
     (case volume_try_body wave_readframes audio_bytes of
        Inl e \<Rightarrow> Num (- 1)
      | Inr v \<Rightarrow> v)"

text \<open>
  The root mean square in the words of the specification: the square root of the mean
  of the squares of the exact integer sample values.
\<close>

definition spec_rms :: "int list \<Rightarrow> real" where
  "spec_rms samples = sqrt (real_of_int (sum_list (map (\<lambda>s. s * s) samples)) / real (length samples))"

text \<open>Two readers for the examples: one that rejects every input, one that decodes to given frames.\<close>

definition unreadable :: "byte list \<Rightarrow> exn + byte list" where
  "unreadable audio_bytes = Inl WaveError"

definition decodes_to :: "byte list \<Rightarrow> byte list \<Rightarrow> exn + byte list" where
  "decodes_to frames audio_bytes = Inr frames"

section \<open>The page's use of the volume (lines 141-153)\<close>

text \<open>Python's \<^verbatim>\<open><\<close> on the returned number: every comparison with \<^verbatim>\<open>nan\<close> is false.\<close>

fun less_than :: "volume \<Rightarrow> real \<Rightarrow> bool" where
  "less_than (Num r) bound = (r < bound)"
| "less_than NaN bound = False"

text \<open>
  \<^verbatim>\<open>
  if rms_val < 5: st.error(silence detected)
  elif rms_val < 15: st.warning(very quiet)
  else: st.success(recording complete)
  \<close>
\<close>

datatype feedback = ErrorSilence | WarningQuiet | SuccessRecorded

definition volume_feedback :: "volume \<Rightarrow> feedback" where
  "volume_feedback rms_val =
     (if less_than rms_val 5 then ErrorSilence
      else if less_than rms_val 15 then WarningQuiet
      else SuccessRecorded)"

text \<open>
  The analyze button: with \<^verbatim>\<open>rms_val < 5\<close> it shows an error and does nothing else;
  otherwise the recording is saved and analysed.
\<close>

datatype analyze_action = BlockedAsSilent | SaveAndAnalyze

definition analyze_button :: "volume \<Rightarrow> analyze_action" where
  "analyze_button rms_val = (if less_than rms_val 5 then BlockedAsSilent else SaveAndAnalyze)"

section \<open>Analysis requester: the candidate loop (lines 163-188)\<close>

text \<open>
  What one attempt does: \<^verbatim>\<open>genai.GenerativeModel(model_name)\<close>,
  \<^verbatim>\<open>generate_content\<close> or \<^verbatim>\<open>response.text\<close> raises, or the attempt yields the
  response text. The remote call is outside the program, so every candidate of the list
  comes with what its attempt does if it is made.
\<close>

datatype 'e attempt = Raises 'e | Responds ustring

record ('m, 'e) loop_state =
  full_result :: "ustring option"
  last_error :: "'e option"
  attempted :: "'m list"

definition initial_state :: "('m, 'e) loop_state" where
  "initial_state = \<lparr>full_result = None, last_error = None, attempted = []\<rparr>"

text \<open>
  \<^verbatim>\<open>
  for model_name in candidate_models:
      try:
          ...
          full_result = response.text
          if full_result: break
      except Exception as e:
          last_error = e
          continue
  \<close>
  \<open>attempted\<close> is not a variable of the program: it records which candidates were
  called, in order.
\<close>

fun candidate_loop :: "('m \<times> 'e attempt) list \<Rightarrow> ('m, 'e) loop_state \<Rightarrow> ('m, 'e) loop_state" where
  "candidate_loop [] st = st"
| "candidate_loop ((model_name, Raises e) # rest) st =
     candidate_loop rest (st\<lparr>last_error := Some e, attempted := attempted st @ [model_name]\<rparr>)"
| "candidate_loop ((model_name, Responds t) # rest) st =
     (let st' = st\<lparr>full_result := Some t, attempted := attempted st @ [model_name]\<rparr>
      in if t \<noteq> [] then st' else candidate_loop rest st')"

text \<open>
  \<^verbatim>\<open>if not full_result: st.error(f"Analysis failed. Error: {last_error}"); st.stop()\<close>,
  and otherwise the text goes on to the section parser.
\<close>

datatype 'e analysis = AnalysisFailed "'e option" | Analysed ustring

definition analysis_of :: "('m, 'e) loop_state \<Rightarrow> 'e analysis" where
  "analysis_of st =
     (if \<not> truthy (full_result st) then AnalysisFailed (last_error st)
      else (case full_result st of Some t \<Rightarrow> Analysed t | None \<Rightarrow> AnalysisFailed (last_error st)))"

definition request_analysis :: "('m \<times> 'e attempt) list \<Rightarrow> 'e analysis" where
  "request_analysis candidates = analysis_of (candidate_loop candidates initial_state)"

definition models_called :: "('m \<times> 'e attempt) list \<Rightarrow> 'm list" where
  "models_called candidates = attempted (candidate_loop candidates initial_state)"

text \<open>An attempt that does not end the loop: it raises or responds with the empty text.\<close>

fun unsuccessful :: "'e attempt \<Rightarrow> bool" where
  "unsuccessful (Raises e) = True"
| "unsuccessful (Responds t) = (t = [])"

text \<open>The errors raised by the attempts of a list, in order.\<close>

fun raised :: "('m \<times> 'e attempt) list \<Rightarrow> 'e list" where
  "raised [] = []"
| "raised ((model_name, Raises e) # rest) = e # raised rest"
| "raised ((model_name, Responds t) # rest) = raised rest"

fun last_option :: "'a list \<Rightarrow> 'a option" where
  "last_option [] = None"
| "last_option [x] = Some x"
| "last_option (x # y # ys) = last_option (y # ys)"

text \<open>The candidate list of the program (line 163).\<close>

definition M1 :: string where "M1 = ''models/gemini-2.0-flash''"
definition M2 :: string where "M2 = ''models/gemini-flash-latest''"

definition candidate_models :: "string list" where
  "candidate_models = [M1, M2]"

section \<open>Section extractor: \<^verbatim>\<open>extract_section\<close> (lines 191-195)\<close>

text \<open>
  \<^verbatim>\<open>
  pattern = f"\\[{section_name}\\](.*?)(?=\\[|$)"
  match = re.search(pattern, text, re.DOTALL)
  return match.group(1).strip() if match else ""
  \<close>
  The section name is put into the pattern as it is, so it is read as a regular
  expression. The model covers the names whose characters are ordinary ones, each
  matching itself, or the dot, which matches any one character (line breaks too, under
  \<^verbatim>\<open>re.DOTALL\<close>). A name with another special character of the pattern language is
  outside the model: \<open>compile_label\<close> gives \<open>None\<close> for it.
\<close>

datatype atom = Literal nat | AnyChar

definition DOT :: nat where "DOT = 46"

text \<open>The special characters \<^verbatim>\<open>. ^ $ * + ? { } [ ] \ | ( )\<close>.\<close>

definition regex_special :: "nat list" where
  "regex_special = [46, 94, 36, 42, 43, 63, 123, 125, 91, 93, 92, 124, 40, 41]"

fun compile_label :: "ustring \<Rightarrow> atom list option" where
  "compile_label [] = Some []"
| "compile_label (c # cs) =
     (if c = DOT then map_option ((#) AnyChar) (compile_label cs)
      else if c \<in> set regex_special then None
      else map_option ((#) (Literal c)) (compile_label cs))"

text \<open>Matching the atoms at the start of a text: the rest of the text behind them.\<close>

fun match_atoms :: "atom list \<Rightarrow> ustring \<Rightarrow> ustring option" where
  "match_atoms [] text = Some text"
| "match_atoms (a # as) [] = None"
| "match_atoms (Literal c # as) (x # xs) = (if x = c then match_atoms as xs else None)"
| "match_atoms (AnyChar # as) (x # xs) = match_atoms as xs"

text \<open>
  \<^verbatim>\<open>(.*?)(?=\[|$)\<close>: the group takes as few characters as possible, up to the first
  position that is followed by an opening bracket or where \<^verbatim>\<open>$\<close> holds. Without
  \<^verbatim>\<open>re.MULTILINE\<close>, \<^verbatim>\<open>$\<close> holds at the end of the text and just before a line
  break that is the last character of the text.
\<close>

fun lazy_group :: "ustring \<Rightarrow> ustring" where
  "lazy_group [] = []"
| "lazy_group (x # xs) =
     (if x = LBRACKET \<or> (x = NL \<and> xs = []) then [] else x # lazy_group xs)"

text \<open>A match of the whole pattern that starts at the start of the text: its group 1.\<close>

definition match_at :: "atom list \<Rightarrow> ustring \<Rightarrow> ustring option" where
  "match_at label text =
     (case text of
        [] \<Rightarrow> None
      | x # xs \<Rightarrow>
          if x \<noteq> LBRACKET then None
          else (case match_atoms label xs of
                  None \<Rightarrow> None
                | Some after \<Rightarrow>
                    (case after of
                       [] \<Rightarrow> None
                     | y # rest \<Rightarrow> if y = RBRACKET then Some (lazy_group rest) else None)))"

text \<open>\<^verbatim>\<open>re.search\<close>: the match at the leftmost position that has one.\<close>

fun re_search :: "atom list \<Rightarrow> ustring \<Rightarrow> ustring option" where
  "re_search label [] = match_at label []"
| "re_search label (x # xs) =
     (case match_at label (x # xs) of
        Some g \<Rightarrow> Some g
      | None \<Rightarrow> re_search label xs)"

text \<open>
  \<^verbatim>\<open>str.strip()\<close> removes the leading and trailing characters that Python counts as
  whitespace.
\<close>

definition isspace :: "nat \<Rightarrow> bool" where
  "isspace c =
     ((9 \<le> c \<and> c \<le> 13) \<or> (28 \<le> c \<and> c \<le> 32) \<or> c = 0x85 \<or> c = 0xA0 \<or> c = 0x1680
      \<or> (0x2000 \<le> c \<and> c \<le> 0x200A) \<or> c = 0x2028 \<or> c = 0x2029 \<or> c = 0x202F
      \<or> c = 0x205F \<or> c = 0x3000)"

definition strip :: "ustring \<Rightarrow> ustring" where
  "strip s = rev (dropWhile isspace (rev (dropWhile isspace s)))"

definition extract_section :: "ustring \<Rightarrow> ustring \<Rightarrow> ustring option" where
  "extract_section text section_name =
     (case compile_label section_name of
        None \<Rightarrow> None
      | Some label \<Rightarrow>
          Some (case re_search label text of
                  Some g \<Rightarrow> strip g
                | None \<Rightarrow> []))"

text \<open>
  The words of the specification: the bracketed header of a label, and the text between
  a header and the next opening bracket or the end of the text.
\<close>

definition bracketed :: "ustring \<Rightarrow> ustring" where
  "bracketed label = LBRACKET # label @ [RBRACKET]"

definition until_bracket :: "ustring \<Rightarrow> ustring" where
  "until_bracket post = takeWhile (\<lambda>c. c \<noteq> LBRACKET) post"

text \<open>The three labels of the program (lines 197-199) and a response with two sections.\<close>

definition three_line_label :: ustring where "three_line_label = ustr ''3-Line Summary''"
definition todo_label :: ustring where "todo_label = ustr ''To-do List''"
definition detailed_label :: ustring where "detailed_label = ustr ''Detailed Summary''"

definition two_sections :: ustring where
  "two_sections = bracketed three_line_label @ [NL] @ ustr ''foo'' @ [NL]
     @ bracketed todo_label @ [NL] @ ustr ''bar''"

text \<open>The section labels: the three names that the program passes (lines 197-199).\<close>

definition section_labels :: "ustring list" where
  "section_labels = [three_line_label, todo_label, detailed_label]"

text \<open>A response whose section body repeats the bracket syntax.\<close>

definition echoed_brackets :: ustring where
  "echoed_brackets = bracketed todo_label @ ustr '' see [1] and [2]''"



section \<open>Verified properties\<close>

subsection \<open>Channel normalization\<close>

lemma startswith_normalize_channel:
  "startswith (normalize_channel channel) HASH \<or> startswith (normalize_channel channel) CAPITAL_C"
  by (cases channel) (simp_all add: normalize_channel_def)

text \<open>
  Claim C6. Channel normalization is idempotent: normalizing an already normalized
  channel changes nothing. On the three inputs of the specification, \<open>general\<close> becomes
  \<open>#general\<close>, \<open>#general\<close> stays \<open>#general\<close> and \<open>C0123456\<close> stays \<open>C0123456\<close>.
\<close>

theorem normalize_channel_idempotent:
  "normalize_channel (normalize_channel channel) = normalize_channel channel
   \<and> normalize_channel (ustr ''general'') = ustr ''#general''
   \<and> normalize_channel (ustr ''#general'') = ustr ''#general''
   \<and> normalize_channel (ustr ''C0123456'') = ustr ''C0123456''"
proof -
  have idem: "normalize_channel (normalize_channel channel) = normalize_channel channel"
    using startswith_normalize_channel [of channel]
    by (auto simp: normalize_channel_def)
  have general: "normalize_channel (ustr ''general'') = ustr ''#general''"
    by (simp add: normalize_channel_def ustr_def HASH_def CAPITAL_C_def)
  have hashed: "normalize_channel (ustr ''#general'') = ustr ''#general''"
    by (simp add: normalize_channel_def ustr_def HASH_def CAPITAL_C_def)
  have ident: "normalize_channel (ustr ''C0123456'') = ustr ''C0123456''"
    by (simp add: normalize_channel_def ustr_def HASH_def CAPITAL_C_def)
  from idem general hashed ident show ?thesis by simp
qed

text \<open>
  Claim C9. Normalization looks at the first character only. A channel whose first
  character is a capital C is returned as it is, whatever follows: a channel ID such as
  \<open>C0123456\<close> and a readable name such as \<open>Cool\<close> alike get no \<open>#\<close> in front.
\<close>

theorem normalize_channel_capital_C:
  "normalize_channel (CAPITAL_C # rest) = CAPITAL_C # rest
   \<and> normalize_channel (ustr ''Cool'') = ustr ''Cool''
   \<and> (normalize_channel (c # rest) = c # rest) = (normalize_channel (c # rest') = c # rest')
   \<and> payload_channel (json (slack_request now token (CAPITAL_C # rest) summary_data attendants context))
       = CAPITAL_C # rest"
  by (simp add: normalize_channel_def slack_request_def ustr_def HASH_def CAPITAL_C_def)

subsection \<open>Message assembly\<close>









subsection \<open>Volume check\<close>

lemma body_Inl: "volume_try_body rd bs = Inl e \<Longrightarrow> check_audio_volume rd bs = Num (- 1)"
  by (simp add: check_audio_volume_def)

lemma frombuffer_empty: "frombuffer_int16 frames = Inr [] \<Longrightarrow> frames = []"
  by (induction frames rule: frombuffer_int16.induct) (auto split: sum.splits)

text \<open>
  Claim C7. The function never raises: whatever exception the body of the \<^verbatim>\<open>try\<close>
  block ends with, the caller gets the value \<open>-1\<close>; in particular a byte string that does
  not parse as a waveform container gives exactly \<open>-1\<close>. A byte string that parses to zero
  frames, or whose decoded sample buffer is empty, gives exactly \<open>0\<close>.
\<close>

theorem check_audio_volume_sentinels:
  "(wave_readframes audio_bytes = Inl e \<longrightarrow> check_audio_volume wave_readframes audio_bytes = Num (- 1))
   \<and> (volume_try_body wave_readframes audio_bytes = Inl e \<longrightarrow>
        check_audio_volume wave_readframes audio_bytes = Num (- 1))
   \<and> (wave_readframes audio_bytes = Inr [] \<longrightarrow> check_audio_volume wave_readframes audio_bytes = Num 0)
   \<and> (wave_readframes audio_bytes = Inr frames \<and> frombuffer_int16 frames = Inr [] \<longrightarrow>
        check_audio_volume wave_readframes audio_bytes = Num 0)"
  by (auto simp: check_audio_volume_def volume_try_body_def dest: frombuffer_empty)

theorem check_audio_volume_sentinels_witness:
  "unreadable [0x52, 0x49] = Inl WaveError
   \<and> volume_try_body unreadable [0x52, 0x49] = Inl WaveError
   \<and> check_audio_volume unreadable [0x52, 0x49] = Num (- 1)
   \<and> decodes_to [] [0x52, 0x49] = Inr []
   \<and> frombuffer_int16 [] = Inr []
   \<and> check_audio_volume (decodes_to []) [0x52, 0x49] = Num 0"
proof -
  have failed: "unreadable [0x52, 0x49] = Inl WaveError"
    by (simp add: unreadable_def)
  have body: "volume_try_body unreadable [0x52, 0x49] = Inl WaveError"
    by (simp add: volume_try_body_def unreadable_def)
  have parsed: "decodes_to [] [0x52, 0x49] = Inr []"
    by (simp add: decodes_to_def)
  have buffer: "frombuffer_int16 [] = Inr []"
    by simp
  from check_audio_volume_sentinels [of unreadable "[0x52, 0x49]" WaveError "[]"] failed body
  have sentinel: "check_audio_volume unreadable [0x52, 0x49] = Num (- 1)"
    by blast
  from check_audio_volume_sentinels [of "decodes_to []" "[0x52, 0x49]" WaveError "[]"] parsed buffer
  have zero: "check_audio_volume (decodes_to []) [0x52, 0x49] = Num 0"
    by blast
  from failed body sentinel parsed buffer zero show ?thesis
    by (intro conjI)
qed

lemma sint_square_small:
  fixes s :: int16
  assumes "\<bar>sint s\<bar> \<le> 181"
  shows "sint (s * s) = sint s * sint s"
proof -
  have "sint s * sint s = \<bar>sint s\<bar> * \<bar>sint s\<bar>"
    by (simp add: abs_mult_self_eq)
  also have "\<dots> \<le> 181 * 181"
    using assms by (intro mult_mono) simp_all
  finally have up: "sint s * sint s < 2 ^ 15" by simp
  have low: "- (2 ^ 15) \<le> sint s * sint s"
    by (rule order_trans [of _ 0]) simp_all
  have "sint (s * s) = signed_take_bit 15 (sint s * sint s)"
    by (simp add: sint_word_ariths)
  also have "\<dots> = sint s * sint s"
    using up low by (simp add: signed_take_bit_int_eq_self)
  finally show ?thesis .
qed

lemma mean_square_small:
  assumes "\<forall>s\<in>set audio_data. \<bar>sint s\<bar> \<le> 181"
  shows "sum_list (map sint (square_int16 audio_data)) = sum_list (map (\<lambda>s. s * s) (map sint audio_data))"
  using assms by (induction audio_data) (simp_all add: square_int16_def sint_square_small)

lemma sum_squares_nonneg: "0 \<le> sum_list (map (\<lambda>s. s * s) (xs :: int list))"
  by (induction xs) simp_all

lemma check_audio_volume_exact_when_small:
  assumes "wave_readframes audio_bytes = Inr frames"
    and "frombuffer_int16 frames = Inr audio_data"
    and "audio_data \<noteq> []"
    and "\<forall>s\<in>set audio_data. \<bar>sint s\<bar> \<le> 181"
  shows "check_audio_volume wave_readframes audio_bytes = Num (spec_rms (map sint audio_data))"
proof -
  from assms(2,3) have nonempty: "frames \<noteq> []" by auto
  have mean: "np_mean (square_int16 audio_data)
      = real_of_int (sum_list (map (\<lambda>s. s * s) (map sint audio_data))) / real (length audio_data)"
    unfolding np_mean_def mean_square_small [OF assms(4)]
    by (simp add: square_int16_def)
  have "0 \<le> np_mean (square_int16 audio_data)"
    unfolding mean using sum_squares_nonneg [of "map sint audio_data"] by simp
  then have root: "np_sqrt (np_mean (square_int16 audio_data)) = Num (spec_rms (map sint audio_data))"
    unfolding np_sqrt_def spec_rms_def mean by simp
  from assms(1,2,3) nonempty show ?thesis
    by (simp add: check_audio_volume_def volume_try_body_def root)
qed

text \<open>
  Claim C1. The returned value is meant to be the root mean square of the exact sample
  values, a number that is at least 0. The squares are taken in 16-bit arithmetic,
  though, and wrap around from amplitude 182 on: a recording of the single sample 256
  (frame bytes \<open>00 01\<close>) yields \<open>0\<close> where the root mean square is \<open>256\<close>, and a recording
  of the single sample 200 (frame bytes \<open>C8 00\<close>) yields \<^verbatim>\<open>nan\<close>, which is not a number
  at least 0, where the root mean square is \<open>200\<close>.
\<close>

theorem check_audio_volume_int16_overflow:
  "check_audio_volume (decodes_to [0x00, 0x01]) audio_bytes = Num 0 \<and> spec_rms [256] = 256
   \<and> check_audio_volume (decodes_to [0xC8, 0x00]) audio_bytes = NaN \<and> spec_rms [200] = 200"
  by (simp add: check_audio_volume_def volume_try_body_def decodes_to_def square_int16_def
      np_mean_def np_sqrt_def spec_rms_def real_sqrt_abs2)

subsection \<open>The analyze button\<close>

text \<open>
  Claim C2, as stated: the sentinel \<open>-1\<close> leads to a warning only and does not block the
  analyze action. It fails: for an unreadable recording the page shows the silence
  error and the analyze action is blocked.
\<close>

theorem decode_failure_blocks_counterexample:
  "check_audio_volume unreadable [] = Num (- 1)
   \<and> volume_feedback (check_audio_volume unreadable []) = ErrorSilence
   \<and> analyze_button (check_audio_volume unreadable []) = BlockedAsSilent"
  by (simp add: check_audio_volume_def volume_try_body_def unreadable_def volume_feedback_def
      analyze_button_def)

text \<open>
  Claim C2, amended. When the container cannot be read, the function returns \<open>-1\<close>, the
  page shows the silence error and the analyze action is blocked. The analyze action is
  blocked exactly when the returned value is a number below 5, which covers the
  sentinel \<open>-1\<close> as well as a decoded recording whose value is below 5.
\<close>

theorem analyze_blocked_below_five:
  "(wave_readframes audio_bytes = Inl e \<longrightarrow>
      check_audio_volume wave_readframes audio_bytes = Num (- 1)
      \<and> volume_feedback (check_audio_volume wave_readframes audio_bytes) = ErrorSilence
      \<and> analyze_button (check_audio_volume wave_readframes audio_bytes) = BlockedAsSilent)
   \<and> (analyze_button rms_val = BlockedAsSilent) = (\<exists>r. rms_val = Num r \<and> r < 5)"
proof -
  have "(analyze_button rms_val = BlockedAsSilent) = (\<exists>r. rms_val = Num r \<and> r < 5)"
    by (cases rms_val) (simp_all add: analyze_button_def)
  then show ?thesis
    by (simp add: check_audio_volume_def volume_try_body_def volume_feedback_def analyze_button_def)
qed

theorem analyze_blocked_below_five_witness:
  "unreadable [0x52, 0x49] = Inl WaveError
   \<and> check_audio_volume unreadable [0x52, 0x49] = Num (- 1)
   \<and> volume_feedback (check_audio_volume unreadable [0x52, 0x49]) = ErrorSilence
   \<and> analyze_button (check_audio_volume unreadable [0x52, 0x49]) = BlockedAsSilent
   \<and> analyze_button (Num 3) = BlockedAsSilent
   \<and> analyze_button (Num 5) = SaveAndAnalyze"
proof -
  have failed: "unreadable [0x52, 0x49] = Inl WaveError"
    by (simp add: unreadable_def)
  note inst = analyze_blocked_below_five [of unreadable "[0x52, 0x49]" WaveError]
  from inst [of "Num 3"] failed have first: "check_audio_volume unreadable [0x52, 0x49] = Num (- 1)
      \<and> volume_feedback (check_audio_volume unreadable [0x52, 0x49]) = ErrorSilence
      \<and> analyze_button (check_audio_volume unreadable [0x52, 0x49]) = BlockedAsSilent"
    by blast
  from inst [of "Num 3"] have three: "analyze_button (Num 3) = BlockedAsSilent"
    by simp
  from inst [of "Num 5"] have five: "analyze_button (Num 5) \<noteq> BlockedAsSilent"
    by simp
  then have "analyze_button (Num 5) = SaveAndAnalyze"
    by (cases "analyze_button (Num 5)") simp_all
  with failed first three show ?thesis by blast
qed

subsection \<open>The candidate loop\<close>

lemma last_option_append: "last_option (xs @ [x]) = Some x"
  by (induction xs rule: last_option.induct) simp_all

lemma last_option_snoc_Cons: "last_option (x # xs) = Some (last (x # xs))"
  by (induction xs arbitrary: x) simp_all

lemma loop_unsuccessful:
  "\<forall>c\<in>set candidates. unsuccessful (snd c) \<Longrightarrow>
   candidate_loop candidates st =
     \<lparr>full_result = (if \<exists>c\<in>set candidates. \<exists>t. snd c = Responds t then Some [] else full_result st),
      last_error = (case last_option (raised candidates) of None \<Rightarrow> last_error st | Some e \<Rightarrow> Some e),
      attempted = attempted st @ map fst candidates\<rparr>"
proof (induction candidates st rule: candidate_loop.induct)
  case (1 st)
  then show ?case by simp
next
  case (2 model_name e rest st)
  then show ?case
    by (cases "raised rest") (auto split: option.splits simp: last_option_snoc_Cons)
next
  case (3 model_name t rest st)
  then show ?case
    by (auto simp: Let_def split: option.splits)
qed

lemma loop_append_unsuccessful:
  "\<forall>c\<in>set before. unsuccessful (snd c) \<Longrightarrow>
   candidate_loop (before @ rest) st = candidate_loop rest (candidate_loop before st)"
  by (induction before st rule: candidate_loop.induct) (simp_all add: Let_def)

lemma raised_all_empty: "\<forall>c\<in>set candidates. snd c = Responds [] \<Longrightarrow> raised candidates = []"
  by (induction candidates rule: raised.induct) simp_all

lemma raised_append: "raised (xs @ ys) = raised xs @ raised ys"
  by (induction xs rule: raised.induct) simp_all

lemma raised_append_Raises:
  "\<forall>c\<in>set later. snd c = Responds [] \<Longrightarrow>
   last_option (raised (before @ (m, Raises e) # later)) = Some e"
  by (simp add: raised_append raised_all_empty last_option_append)

text \<open>
  Claim C3. The loop stops at the first candidate whose attempt yields a non-empty
  text: that text is the result, and the candidates after it are never called. When
  every candidate is tried without a non-empty text, the analysis fails with the last
  error that was recorded; in particular, when all candidates raise, with the error of
  the last candidate.
\<close>

theorem request_analysis_first_nonempty:
  fixes candidates before later :: "('m \<times> 'e attempt) list" and m :: 'm and e :: 'e
  shows "((\<forall>c\<in>set before. unsuccessful (snd c)) \<and> t \<noteq> [] \<longrightarrow>
      request_analysis (before @ (m, Responds t) # later) = Analysed t
      \<and> models_called (before @ (m, Responds t) # later) = map fst before @ [m])
   \<and> ((\<forall>c\<in>set candidates. unsuccessful (snd c)) \<longrightarrow>
      request_analysis candidates = AnalysisFailed (last_option (raised candidates))
      \<and> models_called candidates = map fst candidates)
   \<and> ((\<forall>c\<in>set before. \<exists>e'. snd c = Raises e') \<longrightarrow>
      request_analysis (before @ [(m, Raises e)]) = AnalysisFailed (Some e))"
proof (intro conjI impI)
  assume h: "(\<forall>c\<in>set before. unsuccessful (snd c)) \<and> t \<noteq> []"
  then have split: "candidate_loop (before @ (m, Responds t) # later) initial_state
      = candidate_loop ((m, Responds t) # later) (candidate_loop before initial_state)"
    by (simp add: loop_append_unsuccessful)
  from h have before: "attempted (candidate_loop before initial_state) = map fst before"
    by (simp add: loop_unsuccessful initial_state_def)
  from h split show "request_analysis (before @ (m, Responds t) # later) = Analysed t"
    by (simp add: request_analysis_def analysis_of_def Let_def)
  from h split before show "models_called (before @ (m, Responds t) # later) = map fst before @ [m]"
    by (simp add: models_called_def Let_def)
next
  assume h: "\<forall>c\<in>set candidates. unsuccessful (snd c)"
  then show "request_analysis candidates = AnalysisFailed (last_option (raised candidates))"
    by (simp add: request_analysis_def analysis_of_def loop_unsuccessful initial_state_def
        split: option.splits)
  from h show "models_called candidates = map fst candidates"
    by (simp add: models_called_def loop_unsuccessful initial_state_def)
next
  assume h: "\<forall>c\<in>set before. \<exists>e'. snd c = Raises e'"
  then have "\<forall>c\<in>set (before @ [(m, Raises e)]). unsuccessful (snd c)"
    by auto
  then have "request_analysis (before @ [(m, Raises e)])
      = AnalysisFailed (last_option (raised (before @ [(m, Raises e)])))"
    by (simp add: request_analysis_def analysis_of_def loop_unsuccessful initial_state_def
        split: option.splits)
  also have "last_option (raised (before @ [(m, Raises e)])) = Some e"
    using raised_append_Raises [of "[]" before m e] by simp
  finally show "request_analysis (before @ [(m, Raises e)]) = AnalysisFailed (Some e)" .
qed

theorem request_analysis_first_nonempty_witness:
  "list_all (\<lambda>c. unsuccessful (snd c)) [(M1, Raises ''quota'')] \<and> ustr ''ok'' \<noteq> []
   \<and> map fst ([(M1, Raises ''quota'')] @ (M2, Responds (ustr ''ok'')) # []) = candidate_models
   \<and> request_analysis ([(M1, Raises ''quota'')] @ (M2, Responds (ustr ''ok'')) # []) = Analysed (ustr ''ok'')
   \<and> models_called ([(M1, Raises ''quota'')] @ (M2, Responds (ustr ''ok'')) # []) = [M1, M2]
   \<and> (\<forall>c\<in>set [(M1, Responds (ustr ''ok'')), (M2, Raises ''quota'')]. unsuccessful (snd c)) = False
   \<and> request_analysis ([] @ (M1, Responds (ustr ''ok'')) # [(M2, Raises ''quota'')]) = Analysed (ustr ''ok'')
   \<and> models_called ([] @ (M1, Responds (ustr ''ok'')) # [(M2, Raises ''quota'')]) = [M1]
   \<and> list_all (\<lambda>c. unsuccessful (snd c)) [(M1, Raises ''quota''), (M2, Responds [])]
   \<and> request_analysis [(M1, Raises ''quota''), (M2, Responds [])] = AnalysisFailed (Some ''quota'')
   \<and> list_all (\<lambda>c. \<exists>e'. snd c = Raises e') [(M1, Raises ''quota'')]
   \<and> request_analysis ([(M1, Raises ''quota'')] @ [(M2, Raises ''timeout'')]) = AnalysisFailed (Some ''timeout'')"
proof -
  have h1: "(\<forall>c\<in>set [(M1, Raises ''quota'')]. unsuccessful (snd c)) \<and> ustr ''ok'' \<noteq> []"
    by (simp add: ustr_def)
  have h1': "(\<forall>c\<in>set ([] :: (string \<times> string attempt) list). unsuccessful (snd c)) \<and> ustr ''ok'' \<noteq> []"
    by (simp add: ustr_def)
  have names: "map fst ([(M1, Raises ''quota'')] @ (M2, Responds (ustr ''ok'')) # []) = candidate_models"
    by (simp add: candidate_models_def)
  have not_all: "(\<forall>c\<in>set [(M1, Responds (ustr ''ok'')), (M2, Raises ''quota'')]. unsuccessful (snd c)) = False"
    by (simp add: ustr_def)
  have h2: "\<forall>c\<in>set [(M1, Raises ''quota''), (M2, Responds [])]. unsuccessful (snd c)"
    by simp
  have h3: "\<forall>c\<in>set [(M1, Raises ''quota'')]. \<exists>e'. snd c = Raises e'"
    by simp
  note first = request_analysis_first_nonempty
    [of "[(M1, Raises ''quota'')]" "ustr ''ok''" M2 "[]" "[(M1, Raises ''quota''), (M2, Responds [])]" "''timeout''"]
  note second = request_analysis_first_nonempty
    [of "[]" "ustr ''ok''" M1 "[(M2, Raises ''quota'')]" "[] :: (string \<times> string attempt) list" "''timeout''"]
  from first h1 have a: "request_analysis ([(M1, Raises ''quota'')] @ (M2, Responds (ustr ''ok'')) # []) = Analysed (ustr ''ok'')"
    and b: "models_called ([(M1, Raises ''quota'')] @ (M2, Responds (ustr ''ok'')) # []) = [M1, M2]"
    by simp_all
  from second h1' have c: "request_analysis ([] @ (M1, Responds (ustr ''ok'')) # [(M2, Raises ''quota'')]) = Analysed (ustr ''ok'')"
    and d: "models_called ([] @ (M1, Responds (ustr ''ok'')) # [(M2, Raises ''quota'')]) = [M1]"
    by simp_all
  from first h2 have e: "request_analysis [(M1, Raises ''quota''), (M2, Responds [])] = AnalysisFailed (Some ''quota'')"
    by simp
  from first h3 have f: "request_analysis ([(M1, Raises ''quota'')] @ [(M2, Raises ''timeout'')]) = AnalysisFailed (Some ''timeout'')"
    by blast
  from h1 have l1: "list_all (\<lambda>c. unsuccessful (snd c)) [(M1, Raises ''quota'')] \<and> ustr ''ok'' \<noteq> []"
    by (simp add: list_all_iff)
  from h2 have l2: "list_all (\<lambda>c. unsuccessful (snd c)) [(M1, Raises ''quota''), (M2, Responds [])]"
    by (simp add: list_all_iff)
  from h3 have l3: "list_all (\<lambda>c. \<exists>e'. snd c = Raises e') [(M1, Raises ''quota'')]"
    by (simp add: list_all_iff)
  from l1 names a b not_all c d l2 e l3 f show ?thesis
    by (intro conjI) simp_all
qed

text \<open>
  Claim C10. A candidate that responds with the empty text, without raising, lets the
  loop go on to the next candidate and leaves the recorded error as it was. When every
  candidate responds with the empty text, the analysis fails with no recorded error;
  when an earlier candidate raised and all later ones respond with the empty text, the
  failure carries that earlier, stale error.
\<close>

theorem empty_response_records_no_error:
  fixes candidates before later rest :: "('m \<times> 'e attempt) list"
    and st :: "('m, 'e) loop_state" and m :: 'm and e :: 'e
  shows "candidate_loop ((m, Responds []) # rest) st
     = candidate_loop rest (st\<lparr>full_result := Some [], attempted := attempted st @ [m]\<rparr>)
   \<and> last_error (candidate_loop [(m, Responds [])] st) = last_error st
   \<and> ((\<forall>c\<in>set candidates. snd c = Responds []) \<longrightarrow>
        request_analysis candidates = AnalysisFailed None
        \<and> models_called candidates = map fst candidates)
   \<and> ((\<forall>c\<in>set before. unsuccessful (snd c)) \<and> (\<forall>c\<in>set later. snd c = Responds []) \<longrightarrow>
        request_analysis (before @ (m, Raises e) # later) = AnalysisFailed (Some e))"
proof (intro conjI impI)
  show "candidate_loop ((m, Responds []) # rest) st
     = candidate_loop rest (st\<lparr>full_result := Some [], attempted := attempted st @ [m]\<rparr>)"
    by simp
  show "last_error (candidate_loop [(m, Responds [])] st) = last_error st"
    by simp
next
  assume h: "\<forall>c\<in>set candidates. snd c = Responds []"
  then have un: "\<forall>c\<in>set candidates. unsuccessful (snd c)"
    by simp
  from h have none: "last_option (raised candidates) = None"
    by (simp add: raised_all_empty)
  from un none show "request_analysis candidates = AnalysisFailed None"
    by (simp add: request_analysis_def analysis_of_def loop_unsuccessful initial_state_def
        split: option.splits)
  from un show "models_called candidates = map fst candidates"
    by (simp add: models_called_def loop_unsuccessful initial_state_def)
next
  assume h: "(\<forall>c\<in>set before. unsuccessful (snd c)) \<and> (\<forall>c\<in>set later. snd c = Responds [])"
  then have un: "\<forall>c\<in>set (before @ (m, Raises e) # later). unsuccessful (snd c)"
    by auto
  from h have stale: "last_option (raised (before @ (m, Raises e) # later)) = Some e"
    by (simp add: raised_append_Raises)
  have "request_analysis (before @ (m, Raises e) # later)
      = AnalysisFailed (last_option (raised (before @ (m, Raises e) # later)))"
    using un
    by (simp only: request_analysis_def analysis_of_def loop_unsuccessful initial_state_def)
       (simp split: option.splits)
  with stale show "request_analysis (before @ (m, Raises e) # later) = AnalysisFailed (Some e)"
    by simp
qed

theorem empty_response_records_no_error_witness:
  "list_all (\<lambda>c. snd c = (Responds [] :: string attempt)) [(M1, Responds []), (M2, Responds [])]
   \<and> request_analysis [(M1, Responds []), (M2, Responds [])] = (AnalysisFailed None :: string analysis)
   \<and> models_called [(M1, Responds []), (M2, Responds [])  :: string \<times> string attempt] = [M1, M2]
   \<and> list_all (\<lambda>c. snd c = (Responds [] :: string attempt)) [(M2, Responds [])]
   \<and> request_analysis ([] @ (M1, Raises ''quota'') # [(M2, Responds [])]) = AnalysisFailed (Some ''quota'')"
proof -
  have h1: "\<forall>c\<in>set [(M1, Responds []), (M2, Responds [])]. snd c = (Responds [] :: string attempt)"
    by simp
  have h2: "\<forall>c\<in>set ([] :: (string \<times> string attempt) list). unsuccessful (snd c)"
    by simp
  have h3: "\<forall>c\<in>set [(M2, Responds [])]. snd c = (Responds [] :: string attempt)"
    by simp
  note inst = empty_response_records_no_error
    [of M1 "[]" initial_state "[(M1, Responds []), (M2, Responds [])]" "[]" "[(M2, Responds [])]" "''quota''"]
  from inst h1 have a: "request_analysis [(M1, Responds []), (M2, Responds [])] = (AnalysisFailed None :: string analysis)"
    and b: "models_called [(M1, Responds []), (M2, Responds []) :: string \<times> string attempt] = [M1, M2]"
    by simp_all
  from inst h2 h3 have c: "request_analysis ([] @ (M1, Raises ''quota'') # [(M2, Responds [])]) = AnalysisFailed (Some ''quota'')"
    by blast
  from h1 have l1: "list_all (\<lambda>c. snd c = (Responds [] :: string attempt)) [(M1, Responds []), (M2, Responds [])]"
    by (simp add: list_all_iff)
  from h3 have l3: "list_all (\<lambda>c. snd c = (Responds [] :: string attempt)) [(M2, Responds [])]"
    by (simp add: list_all_iff)
  from l1 a b l3 c show ?thesis
    by (intro conjI)
qed

subsection \<open>Section extraction\<close>

lemma plain_compile:
  "\<forall>c\<in>set label. c \<notin> set regex_special \<Longrightarrow> compile_label label = Some (map Literal label)"
  by (induction label) (auto simp: regex_special_def DOT_def)

lemma match_atoms_literal:
  "match_atoms (map Literal label) xs = Some r \<longleftrightarrow> xs = label @ r"
  by (induction label arbitrary: xs) (case_tac xs; auto)+

lemma match_atoms_literal_append: "match_atoms (map Literal label) (label @ r) = Some r"
  by (simp add: match_atoms_literal)

lemma match_at_literal:
  "match_at (map Literal label) response = Some g
     \<longleftrightarrow> (\<exists>post. response = bracketed label @ post \<and> g = lazy_group post)"
proof
  assume "match_at (map Literal label) response = Some g"
  then show "\<exists>post. response = bracketed label @ post \<and> g = lazy_group post"
    by (auto simp: match_at_def bracketed_def match_atoms_literal
        split: list.splits option.splits if_splits)
next
  assume "\<exists>post. response = bracketed label @ post \<and> g = lazy_group post"
  then show "match_at (map Literal label) response = Some g"
    by (auto simp: match_at_def bracketed_def match_atoms_literal_append)
qed

lemma match_at_prefix:
  "match_at (map Literal label) response = Some g \<Longrightarrow> prefix (bracketed label) response"
  by (auto simp: match_at_literal)

lemma re_search_absent:
  "\<not> sublist (bracketed label) response \<Longrightarrow> re_search (map Literal label) response = None"
proof (induction response)
  case Nil
  then show ?case by (simp add: match_at_def)
next
  case (Cons x xs)
  from Cons.prems have no_prefix: "\<not> prefix (bracketed label) (x # xs)"
    and rest: "\<not> sublist (bracketed label) xs"
    by (simp_all add: sublist_Cons_right)
  from no_prefix have "match_at (map Literal label) (x # xs) = None"
    using match_at_prefix [of label "x # xs"] by (cases "match_at (map Literal label) (x # xs)") auto
  with Cons.IH [OF rest] show ?case by simp
qed

lemma early_prefix:
  assumes "prefix pat (x # pre @ pat @ post)" and "pat \<noteq> []"
  shows "prefix pat (x # pre @ butlast pat)"
proof -
  have whole: "x # pre @ pat @ post = (x # pre @ butlast pat) @ (last pat # post)"
    using assms(2) by simp
  have "prefix (x # pre @ butlast pat) (x # pre @ pat @ post)"
    unfolding whole by (rule prefixI) simp
  moreover have "length pat \<le> length (x # pre @ butlast pat)"
    by simp
  ultimately show ?thesis
    using assms(1) prefix_length_prefix by blast
qed

lemma re_search_first:
  "\<not> sublist (bracketed label) (pre @ butlast (bracketed label)) \<Longrightarrow>
   re_search (map Literal label) (pre @ bracketed label @ post) = Some (lazy_group post)"
proof (induction pre)
  case Nil
  have "match_at (map Literal label) (bracketed label @ post) = Some (lazy_group post)"
    by (auto simp: match_at_literal)
  then show ?case
    by (cases "bracketed label @ post") (simp_all add: bracketed_def)
next
  case (Cons x pre)
  have nonempty: "bracketed label \<noteq> []"
    by (simp add: bracketed_def)
  from Cons.prems have no_prefix: "\<not> prefix (bracketed label) (x # pre @ butlast (bracketed label))"
    and rest: "\<not> sublist (bracketed label) (pre @ butlast (bracketed label))"
    by (simp_all add: sublist_Cons_right)
  from no_prefix have "\<not> prefix (bracketed label) (x # pre @ bracketed label @ post)"
    using early_prefix [OF _ nonempty] by blast
  then have "match_at (map Literal label) (x # pre @ bracketed label @ post) = None"
    using match_at_prefix [of label "x # pre @ bracketed label @ post"]
    by (cases "match_at (map Literal label) (x # pre @ bracketed label @ post)") auto
  with Cons.IH [OF rest] show ?case by simp
qed

lemma lazy_group_until_bracket:
  "until_bracket post = lazy_group post \<or> until_bracket post = lazy_group post @ [NL]"
  by (induction post) (auto simp: until_bracket_def NL_def LBRACKET_def)

lemma strip_line_break: "strip (s @ [NL]) = strip s"
proof -
  have nl: "isspace NL"
    by (simp add: isspace_def NL_def)
  show ?thesis
  proof (cases "\<forall>c\<in>set s. isspace c")
    case True
    with nl have "\<forall>c\<in>set (s @ [NL]). isspace c"
      by simp
    then have long: "dropWhile isspace (s @ [NL]) = []"
      by (simp only: dropWhile_eq_Nil_conv)
    from True have short: "dropWhile isspace s = []"
      by (simp only: dropWhile_eq_Nil_conv)
    show ?thesis
      unfolding strip_def long short by simp
  next
    case False
    then have "dropWhile isspace (s @ [NL]) = dropWhile isspace s @ [NL]"
      by (auto simp: dropWhile_append1)
    with nl show ?thesis by (simp add: strip_def)
  qed
qed

lemma strip_lazy_group: "strip (lazy_group post) = strip (until_bracket post)"
  using lazy_group_until_bracket [of post] by (auto simp: strip_line_break)

lemma lazy_group_no_bracket: "LBRACKET \<notin> set (lazy_group rest)"
  by (induction rest) auto

lemma set_strip: "set (strip s) \<subseteq> set s"
proof -
  have "set (strip s) \<subseteq> set (dropWhile isspace s)"
    unfolding strip_def using set_dropWhileD by fastforce
  also have "\<dots> \<subseteq> set s"
    using set_dropWhileD by fastforce
  finally show ?thesis .
qed

lemma match_at_group: "match_at label response = Some g \<Longrightarrow> \<exists>rest. g = lazy_group rest"
  by (auto simp: match_at_def split: list.splits option.splits if_splits)

lemma re_search_group: "re_search label response = Some g \<Longrightarrow> \<exists>rest. g = lazy_group rest"
  by (induction response) (auto split: option.splits dest: match_at_group)

text \<open>
  A label without a character that is special in a pattern is matched as it is written:
  the result is the trimmed text between the first occurrence of the bracketed label and
  the next opening bracket or the end of the text, and the empty string when the
  bracketed label does not occur.
\<close>

lemma extract_section_plain:
  assumes "\<forall>c\<in>set label. c \<notin> set regex_special"
  shows "(\<not> sublist (bracketed label) (pre @ butlast (bracketed label)) \<longrightarrow>
            extract_section (pre @ bracketed label @ post) label = Some (strip (until_bracket post)))
         \<and> (\<not> sublist (bracketed label) response \<longrightarrow> extract_section response label = Some [])"
proof -
  from assms have compiled: "compile_label label = Some (map Literal label)"
    by (rule plain_compile)
  show ?thesis
    by (simp add: extract_section_def compiled re_search_first re_search_absent strip_lazy_group)
qed

lemma section_labels_plain:
  "label \<in> set section_labels \<Longrightarrow> \<forall>c\<in>set label. c \<notin> set regex_special"
  by (auto simp: section_labels_def three_line_label_def todo_label_def detailed_label_def
      ustr_def regex_special_def)

text \<open>
  Claim C4. For every text and every section label (the three labels of the program),
  the result is the text between the first occurrence of the bracketed label and the
  next opening bracket or the end of the text, line breaks included, with leading and
  trailing whitespace removed; when the bracketed label does not occur in the text,
  the result is the empty string, and no error. The occurrence behind \<open>pre\<close> is the
  first one when the bracketed label does not occur in \<open>pre\<close> followed by all but the
  last character of the bracketed label.
\<close>

theorem extract_section_section_labels:
  assumes "label \<in> set section_labels"
  shows "(\<not> sublist (bracketed label) (pre @ butlast (bracketed label)) \<longrightarrow>
            extract_section (pre @ bracketed label @ post) label = Some (strip (until_bracket post)))
         \<and> (\<not> sublist (bracketed label) response \<longrightarrow> extract_section response label = Some [])"
  using extract_section_plain [OF section_labels_plain [OF assms]] .

text \<open>
  Claim C8. The extracted section never contains an opening bracket: the group stops
  before the first opening bracket behind the header, so bracket syntax repeated inside
  a section body cuts the section short and does not reach the result. This holds for
  every text and every label of the model.
\<close>

theorem extract_section_no_bracket:
  "extract_section response label = Some r \<Longrightarrow> LBRACKET \<notin> set r"
proof -
  assume result: "extract_section response label = Some r"
  then obtain atoms where "compile_label label = Some atoms"
    and r: "r = (case re_search atoms response of Some g \<Rightarrow> strip g | None \<Rightarrow> [])"
    by (auto simp: extract_section_def split: option.splits)
  show ?thesis
  proof (cases "re_search atoms response")
    case None
    with r show ?thesis by simp
  next
    case (Some g)
    then obtain rest where "g = lazy_group rest"
      using re_search_group by blast
    then have "LBRACKET \<notin> set g"
      by (simp add: lazy_group_no_bracket)
    with Some r show ?thesis
      using set_strip [of g] by auto
  qed
qed

lemmas example_defs = two_sections_def echoed_brackets_def todo_label_def three_line_label_def
  detailed_label_def bracketed_def until_bracket_def ustr_def extract_section_def match_at_def
  strip_def isspace_def DOT_def regex_special_def LBRACKET_def RBRACKET_def NL_def

theorem extract_section_section_labels_witness:
  "three_line_label \<in> set section_labels
   \<and> \<not> sublist (bracketed three_line_label) ([] @ butlast (bracketed three_line_label))
   \<and> extract_section two_sections three_line_label = Some (ustr ''foo'')
   \<and> todo_label \<in> set section_labels
   \<and> \<not> sublist (bracketed todo_label)
         ((bracketed three_line_label @ [NL] @ ustr ''foo'' @ [NL]) @ butlast (bracketed todo_label))
   \<and> extract_section two_sections todo_label = Some (ustr ''bar'')
   \<and> detailed_label \<in> set section_labels
   \<and> \<not> sublist (bracketed detailed_label) two_sections
   \<and> extract_section two_sections detailed_label = Some []"
proof -
  have plain1: "three_line_label \<in> set section_labels"
    by (simp add: section_labels_def)
  have plain2: "todo_label \<in> set section_labels"
    by (simp add: section_labels_def)
  have plain3: "detailed_label \<in> set section_labels"
    by (simp add: section_labels_def)
  have first1: "\<not> sublist (bracketed three_line_label) ([] @ butlast (bracketed three_line_label))"
    by (simp add: example_defs sublist_code)
  have first2: "\<not> sublist (bracketed todo_label)
         ((bracketed three_line_label @ [NL] @ ustr ''foo'' @ [NL]) @ butlast (bracketed todo_label))"
    by (simp add: example_defs sublist_code)
  have absent: "\<not> sublist (bracketed detailed_label) two_sections"
    by (simp add: example_defs sublist_code)
  have text1: "two_sections = [] @ bracketed three_line_label
        @ ([NL] @ ustr ''foo'' @ [NL] @ bracketed todo_label @ [NL] @ ustr ''bar'')"
    by (simp add: two_sections_def)
  have text2: "two_sections = (bracketed three_line_label @ [NL] @ ustr ''foo'' @ [NL])
        @ bracketed todo_label @ ([NL] @ ustr ''bar'')"
    by (simp add: two_sections_def)
  have body1: "strip (until_bracket ([NL] @ ustr ''foo'' @ [NL] @ bracketed todo_label @ [NL] @ ustr ''bar''))
        = ustr ''foo''"
    by (simp add: example_defs)
  have body2: "strip (until_bracket ([NL] @ ustr ''bar'')) = ustr ''bar''"
    by (simp add: example_defs)
  from extract_section_section_labels [OF plain1, of "[]"
      "[NL] @ ustr ''foo'' @ [NL] @ bracketed todo_label @ [NL] @ ustr ''bar''" "[]"] first1
  have a: "extract_section two_sections three_line_label = Some (ustr ''foo'')"
    unfolding text1 [symmetric] body1 by blast
  from extract_section_section_labels [OF plain2, of
      "bracketed three_line_label @ [NL] @ ustr ''foo'' @ [NL]" "[NL] @ ustr ''bar''" "[]"] first2
  have b: "extract_section two_sections todo_label = Some (ustr ''bar'')"
    unfolding text2 [symmetric] body2 by blast
  from extract_section_section_labels [OF plain3, of "[]" "[]" two_sections] absent
  have c: "extract_section two_sections detailed_label = Some []"
    by blast
  from plain1 first1 a plain2 first2 b plain3 absent c show ?thesis
    by (intro conjI)
qed

theorem extract_section_no_bracket_witness:
  "extract_section echoed_brackets todo_label = Some (ustr ''see'')
   \<and> LBRACKET \<notin> set (ustr ''see'')"
proof -
  have result: "extract_section echoed_brackets todo_label = Some (ustr ''see'')"
    by (simp add: example_defs)
  from result extract_section_no_bracket [OF result] show ?thesis
    by (intro conjI)
qed

end
